theory Spec2Isabelle
  imports Complex_Main "HOL-Library.Log_Nat"
begin

section \<open>The HEMT power-supply helpers of InstrumentSandbox.ipynb\<close>

text \<open>
  The notebook cell "HEMT Power Supplies" defines \<open>ramp_voltage\<close>, \<open>monitor_IV_curve\<close>,
  \<open>reset_HEMT_settings\<close>, \<open>turn_on_HEMTS\<close> and \<open>turn_off_HEMTS\<close>. They drive a power-supply
  driver object whose class is not part of the notebook: the driver is an opaque
  collaborator here, a transition function on a device state of any type.

  Numbers are rationals (\<^typ>\<open>rat\<close>): every Python \<open>int\<close> and every finite \<open>float\<close> is one.
  What differs between the two is the arithmetic, which is a parameter of the model.
\<close>

subsection \<open>Python's numbers\<close>

text \<open>
  The result of an arithmetic operation is the exact result, rounded. On \<open>int\<close> arguments
  Python computes exactly. On \<open>float\<close> arguments Python and numpy compute in IEEE-754
  binary64: the exact result is rounded to the nearest number with a significand of 53
  bits, a tie to the one whose significand is even. Overflow to infinity and the
  subnormal numbers below \<open>2^-1022\<close> are not modelled: \<open>f64\<close> is binary64 rounding on
  the range of the normal numbers.
\<close>

type_synonym rounding = "rat \<Rightarrow> rat"

definition exact :: rounding where
  "exact x = x"

definition pow2 :: "int \<Rightarrow> rat" where
  "pow2 e = (if 0 \<le> e then 2 ^ nat e else 1 / 2 ^ nat (- e))"

text \<open>The binary exponent of \<open>x \<noteq> 0\<close>: the \<open>e\<close> with \<open>2^e \<le> |x| < 2^(e+1)\<close>.\<close>

definition exponent :: "rat \<Rightarrow> int" where
  "exponent x =
     (case quotient_of \<bar>x\<bar> of (p, q) \<Rightarrow>
        let d = bitlen p - bitlen q in if pow2 d \<le> \<bar>x\<bar> then d else d - 1)"

definition round_half_even :: "rat \<Rightarrow> int" where
  "round_half_even x =
     (let f = \<lfloor>x\<rfloor>; d = x - of_int f
      in if d < 1 / 2 then f else if 1 / 2 < d then f + 1 else if even f then f else f + 1)"

definition f64 :: rounding where
  "f64 x = (if x = 0 then 0
            else let u = pow2 (exponent x - 52) in of_int (round_half_even (x / u)) * u)"

subsection \<open>Exceptions, values, the device and the trace of effects\<close>

text \<open>
  The exceptions that the modelled code can raise. \<open>DeviceCommandError\<close> stands for a
  failure of the driver; \<open>InvalidRampBounds\<close> is the error the specification names: no
  line of the notebook raises it.
\<close>

datatype error =
    TypeError
  | NameError
  | ZeroDivisionError
  | ValueError
  | AssertionError
  | DeviceCommandError
  | InvalidRampBounds

text \<open>What a driver method returns: a Python object.\<close>

datatype pyobj = PyNone | PyBool bool | PyInt int | PyFloat rat | PyStr string

text \<open>The driver methods the notebook calls, with their arguments.\<close>

datatype command =
    SetChannelVoltage int rat
  | GetChannelCurrent int
  | GetChannelVoltage int
  | SetOvercurrent int rat
  | GetOutput
  | SetOutput int bool

text \<open>
  A driver object: each method call takes the device from one state to the next and
  either returns an object or raises.
\<close>

type_synonym 's psu = "command \<Rightarrow> 's \<Rightarrow> (error + pyobj) \<times> 's"

text \<open>
  Everything the code does to the outside, in order: what it prints, how long it sleeps,
  and every driver call with its outcome.
\<close>

datatype event =
    Print int rat
  | PrintLn
  | Sleep rat
  | Call command "error + pyobj"

record 's world =
  dev :: 's
  trace :: "event list"

type_synonym ('a, 's) prog = "'s world \<Rightarrow> (error + 'a) \<times> 's world"

definition succeed :: "'a \<Rightarrow> ('a, 's) prog" where
  "succeed x = (\<lambda>w. (Inr x, w))"

definition raise :: "error \<Rightarrow> ('a, 's) prog" where
  "raise e = (\<lambda>w. (Inl e, w))"

text \<open>Sequencing: an exception of the first statement skips the rest.\<close>

definition then_do :: "('a, 's) prog \<Rightarrow> ('a \<Rightarrow> ('b, 's) prog) \<Rightarrow> ('b, 's) prog" where
  "then_do m f = (\<lambda>w. case m w of (Inl e, w') \<Rightarrow> (Inl e, w') | (Inr x, w') \<Rightarrow> f x w')"

definition emit :: "event \<Rightarrow> (unit, 's) prog" where
  "emit ev = (\<lambda>w. (Inr (), w\<lparr>trace := trace w @ [ev]\<rparr>))"

definition device_call :: "'s psu \<Rightarrow> command \<Rightarrow> (pyobj, 's) prog" where
  "device_call psu cmd =
     (\<lambda>w. case psu cmd (dev w) of
            (r, d') \<Rightarrow> (r, \<lparr>dev = d', trace = trace w @ [Call cmd r]\<rparr>))"

definition set_channel_voltage :: "'s psu \<Rightarrow> int \<Rightarrow> rat \<Rightarrow> (pyobj, 's) prog" where
  "set_channel_voltage psu ch voltage = device_call psu (SetChannelVoltage ch voltage)"

definition get_channel_current :: "'s psu \<Rightarrow> int \<Rightarrow> (pyobj, 's) prog" where
  "get_channel_current psu ch = device_call psu (GetChannelCurrent ch)"

definition get_channel_voltage :: "'s psu \<Rightarrow> int \<Rightarrow> (pyobj, 's) prog" where
  "get_channel_voltage psu ch = device_call psu (GetChannelVoltage ch)"

definition set_overcurrent :: "'s psu \<Rightarrow> int \<Rightarrow> rat \<Rightarrow> (pyobj, 's) prog" where
  "set_overcurrent psu ch OCP = device_call psu (SetOvercurrent ch OCP)"

definition get_output :: "'s psu \<Rightarrow> (pyobj, 's) prog" where
  "get_output psu = device_call psu GetOutput"

definition set_output :: "'s psu \<Rightarrow> int \<Rightarrow> bool \<Rightarrow> (pyobj, 's) prog" where
  "set_output psu ch out = device_call psu (SetOutput ch out)"

text \<open>\<open>time.sleep(delay)\<close> raises \<open>ValueError\<close> for a negative delay.\<close>

definition sleep :: "rat \<Rightarrow> (unit, 's) prog" where
  "sleep delay = (if delay < 0 then raise ValueError else emit (Sleep delay))"

text \<open>\<open>assert c\<close>.\<close>

definition py_assert :: "bool \<Rightarrow> (unit, 's) prog" where
  "py_assert c = (if c then succeed () else raise AssertionError)"

subsection \<open>np.arange\<close>

text \<open>
  \<open>np.arange(start, stop, step)\<close> is numpy's, not the notebook's. As numpy documents it,
  the result has \<open>ceil((stop - start) / step)\<close> values, none when that is not positive,
  and the values are \<open>start + i * step\<close>. As numpy computes it on Python scalars: the
  length is the ceiling of the quotient, computed in two operations, and \<open>step = 0\<close> makes
  the division raise \<open>ZeroDivisionError\<close>; the first value is \<open>start\<close>, the second is
  \<open>next = start + step\<close>, and the value of index \<open>i \<ge> 2\<close> is \<open>start + i * delta\<close> with
  \<open>delta = next - start\<close>, the product and the sum rounded one after the other. With
  exact arithmetic this is the documented \<open>start + i * step\<close>. (On \<open>int\<close> arguments numpy
  still takes the length from a float division; \<open>exact\<close> idealises that, which changes
  nothing while the quotient is below \<open>2^53\<close>.)
\<close>

definition np_arange :: "rounding \<Rightarrow> rat \<Rightarrow> rat \<Rightarrow> rat \<Rightarrow> error + rat list" where
  "np_arange rnd start stop step =
     (if step = 0 then Inl ZeroDivisionError
      else let n = nat \<lceil>rnd (rnd (stop - start) / step)\<rceil>;
               next = rnd (start + step);
               delta = rnd (next - start)
           in Inr (map (\<lambda>i. if i = 0 then start else if i = 1 then next
                              else rnd (start + rnd (of_nat i * delta))) [0..<n]))"

subsection \<open>ramp_voltage\<close>

text \<open>
  \<^verbatim>\<open>
  def ramp_voltage(psu, channel, v_start, v_stop, v_step=0.01, delay=1):
      voltages = np.arange(v_start, v_stop + v_step, v_step) \
                  if v_stop >= v_start \
                  else np.arange(v_start, v_stop - v_step, -v_step)
      data = []
      for v in voltages:
          print(f"\rSetting CH{channel} -> {v:.3f} V", end="")
          psu.set_channel_voltage(channel, v)
          cur = psu.get_channel_current(channel)
          data.append((v, cur))
          time.sleep(delay)
      print()  # newline after the loop
      return data
  \<close>
\<close>

definition ramp_setpoints :: "rounding \<Rightarrow> rat \<Rightarrow> rat \<Rightarrow> rat \<Rightarrow> error + rat list" where
  "ramp_setpoints rnd v_start v_stop v_step =
     (if v_stop \<ge> v_start then np_arange rnd v_start (rnd (v_stop + v_step)) v_step
      else np_arange rnd v_start (rnd (v_stop - v_step)) (- v_step))"

text \<open>One pass of the loop body for the setpoint \<open>v\<close>: the sample it appends.\<close>

definition ramp_step :: "'s psu \<Rightarrow> int \<Rightarrow> rat \<Rightarrow> rat \<Rightarrow> (rat \<times> pyobj, 's) prog" where
  "ramp_step psu channel delay v =
     then_do (emit (Print channel v)) (\<lambda>_.
     then_do (set_channel_voltage psu channel v) (\<lambda>_.
     then_do (get_channel_current psu channel) (\<lambda>cur.
     then_do (sleep delay) (\<lambda>_.
     succeed (v, cur)))))"

fun ramp_loop ::
  "'s psu \<Rightarrow> int \<Rightarrow> rat \<Rightarrow> rat list \<Rightarrow> (rat \<times> pyobj) list \<Rightarrow> ((rat \<times> pyobj) list, 's) prog"
where
  "ramp_loop psu channel delay [] data = succeed data"
| "ramp_loop psu channel delay (v # voltages) data =
     then_do (ramp_step psu channel delay v) (\<lambda>p.
     ramp_loop psu channel delay voltages (data @ [p]))"

definition ramp_voltage ::
  "rounding \<Rightarrow> 's psu \<Rightarrow> int \<Rightarrow> rat \<Rightarrow> rat \<Rightarrow> rat \<Rightarrow> rat
     \<Rightarrow> ((rat \<times> pyobj) list, 's) prog"
where
  "ramp_voltage rnd psu channel v_start v_stop v_step delay =
     (case ramp_setpoints rnd v_start v_stop v_step of
        Inl e \<Rightarrow> raise e
      | Inr voltages \<Rightarrow>
          then_do (ramp_loop psu channel delay voltages []) (\<lambda>data.
          then_do (emit PrintLn) (\<lambda>_.
          succeed data)))"

subsection \<open>reset_HEMT_settings\<close>

text \<open>
  \<^verbatim>\<open>
  def reset_HEMT_settings(HEMT_PSU, output):
      HEMT_PSU.set_overcurrent(ch=1, OCP=0.005)
      HEMT_PSU.set_overcurrent(ch=2, OCP=0.05)
      status = HEMT_PSU.get_output()
      assert status is False
      HEMT_PSU.set_channel_voltage(ch=1, voltage=0)
      HEMT_PSU.set_channel_voltage(ch=2, voltage=0)
      assert HEMT_PSU.get_channel_voltage(ch=1) == 0
      assert HEMT_PSU.get_channel_voltage(ch=2) == 0
      HEMT_PSU.set_output(ch=1, output=True)
      HEMT_PSU.set_output(ch=2, output=True)
  \<close>
  \<open>status is False\<close> holds of the object \<open>False\<close> only; \<open>x == 0\<close> holds of the numbers
  zero and of \<open>False\<close>. The literals \<open>0.005\<close> and \<open>0.05\<close> are floats. The \<open>assert\<close>
  statements are checked, as they are unless Python runs with \<open>-O\<close>.
\<close>

fun py_eq_zero :: "pyobj \<Rightarrow> bool" where
  "py_eq_zero (PyBool b) = (\<not> b)"
| "py_eq_zero (PyInt i) = (i = 0)"
| "py_eq_zero (PyFloat r) = (r = 0)"
| "py_eq_zero PyNone = False"
| "py_eq_zero (PyStr s) = False"

definition reset_HEMT_settings :: "'s psu \<Rightarrow> 'o \<Rightarrow> (unit, 's) prog" where
  "reset_HEMT_settings HEMT_PSU output =
     then_do (set_overcurrent HEMT_PSU 1 (f64 (5 / 1000))) (\<lambda>_.
     then_do (set_overcurrent HEMT_PSU 2 (f64 (5 / 100))) (\<lambda>_.
     then_do (get_output HEMT_PSU) (\<lambda>status.
     then_do (py_assert (status = PyBool False)) (\<lambda>_.
     then_do (set_channel_voltage HEMT_PSU 1 0) (\<lambda>_.
     then_do (set_channel_voltage HEMT_PSU 2 0) (\<lambda>_.
     then_do (get_channel_voltage HEMT_PSU 1) (\<lambda>v1.
     then_do (py_assert (py_eq_zero v1)) (\<lambda>_.
     then_do (get_channel_voltage HEMT_PSU 2) (\<lambda>v2.
     then_do (py_assert (py_eq_zero v2)) (\<lambda>_.
     then_do (set_output HEMT_PSU 1 True) (\<lambda>_.
     then_do (set_output HEMT_PSU 2 True) (\<lambda>_.
     succeed ()))))))))))))"

subsection \<open>Calling a Python function: binding arguments to parameters\<close>

text \<open>
  The notebook's functions take plain parameters only (no \<open>*args\<close>, no \<open>**kwargs\<close>). A call
  binds its positional arguments to the first parameters, its keyword arguments by name,
  and the remaining parameters to their defaults. It raises \<open>TypeError\<close>, before the body
  runs, when there are too many positional arguments, when a keyword names no parameter
  or a parameter that is bound already, or when a parameter without a default stays
  unbound.
\<close>

fun bind_positional :: "string list \<Rightarrow> 'v list \<Rightarrow> error + (string \<times> 'v) list" where
  "bind_positional ps [] = Inr []"
| "bind_positional [] (a # as) = Inl TypeError"
| "bind_positional (p # ps) (a # as) =
     (case bind_positional ps as of Inl e \<Rightarrow> Inl e | Inr env \<Rightarrow> Inr ((p, a) # env))"

fun bind_keywords ::
  "string list \<Rightarrow> (string \<times> 'v) list \<Rightarrow> (string \<times> 'v) list \<Rightarrow> error + (string \<times> 'v) list"
where
  "bind_keywords ps env [] = Inr env"
| "bind_keywords ps env ((k, a) # kwargs) =
     (if k \<notin> set ps then Inl TypeError
      else if k \<in> set (map fst env) then Inl TypeError
      else bind_keywords ps (env @ [(k, a)]) kwargs)"

definition bind_args ::
  "string list \<Rightarrow> (string \<times> 'v) list \<Rightarrow> 'v list \<Rightarrow> (string \<times> 'v) list
     \<Rightarrow> error + (string \<Rightarrow> 'v option)"
where
  "bind_args params defaults args kwargs =
     (case bind_positional params args of
        Inl e \<Rightarrow> Inl e
      | Inr env \<Rightarrow>
         (case bind_keywords params env kwargs of
            Inl e \<Rightarrow> Inl e
          | Inr env' \<Rightarrow>
             (let full = env' @ filter (\<lambda>d. fst d \<notin> set (map fst env')) defaults
              in if list_all (\<lambda>p. p \<in> set (map fst full)) params
                 then Inr (map_of full) else Inl TypeError)))"

text \<open>The objects the notebook passes as arguments: the driver object and numbers.\<close>

datatype 's pyarg = ArgPsu "'s psu" | ArgInt int | ArgFloat rat

fun as_psu :: "'s pyarg option \<Rightarrow> 's psu option" where
  "as_psu (Some (ArgPsu p)) = Some p"
| "as_psu _ = None"

fun as_int :: "'s pyarg option \<Rightarrow> int option" where
  "as_int (Some (ArgInt i)) = Some i"
| "as_int _ = None"

fun as_num :: "'s pyarg option \<Rightarrow> rat option" where
  "as_num (Some (ArgInt i)) = Some (of_int i)"
| "as_num (Some (ArgFloat r)) = Some r"
| "as_num _ = None"

text \<open>
  The arithmetic of a ramp: exact when start, stop and step are all \<open>int\<close>; binary64 as
  soon as one of them is a \<open>float\<close>, since Python converts an \<open>int\<close> that meets a \<open>float\<close>.
\<close>

fun is_int :: "'s pyarg option \<Rightarrow> bool" where
  "is_int (Some (ArgInt i)) = True"
| "is_int _ = False"

definition arithmetic_of :: "(string \<Rightarrow> 's pyarg option) \<Rightarrow> rounding" where
  "arithmetic_of env =
     (if is_int (env ''v_start'') \<and> is_int (env ''v_stop'') \<and> is_int (env ''v_step'')
      then exact else f64)"

definition ramp_voltage_params :: "string list" where
  "ramp_voltage_params = [''psu'', ''channel'', ''v_start'', ''v_stop'', ''v_step'', ''delay'']"

definition ramp_voltage_defaults :: "(string \<times> 's pyarg) list" where
  "ramp_voltage_defaults = [(''v_step'', ArgFloat (f64 (1 / 100))), (''delay'', ArgInt 1)]"

definition reset_HEMT_settings_params :: "string list" where
  "reset_HEMT_settings_params = [''HEMT_PSU'', ''output'']"

text \<open>
  A call \<open>ramp_voltage(args, kwargs)\<close>. The body is modelled for a driver object, an integer
  channel and numbers; a call that binds but passes other kinds of objects is outside
  the model (no call of the notebook does) and is given \<open>TypeError\<close>.
\<close>

definition call_ramp_voltage ::
  "'s pyarg list \<Rightarrow> (string \<times> 's pyarg) list \<Rightarrow> ((rat \<times> pyobj) list, 's) prog"
where
  "call_ramp_voltage args kwargs =
     (case bind_args ramp_voltage_params ramp_voltage_defaults args kwargs of
        Inl e \<Rightarrow> raise e
      | Inr env \<Rightarrow>
         (case (as_psu (env ''psu''), as_int (env ''channel''), as_num (env ''v_start''),
                as_num (env ''v_stop''), as_num (env ''v_step''), as_num (env ''delay'')) of
            (Some psu, Some channel, Some v_start, Some v_stop, Some v_step, Some delay) \<Rightarrow>
              ramp_voltage (arithmetic_of env) psu channel v_start v_stop v_step delay
          | _ \<Rightarrow> raise TypeError))"

text \<open>A call \<open>reset_HEMT_settings(args, kwargs)\<close>, with the same restriction.\<close>

definition call_reset_HEMT_settings ::
  "'s pyarg list \<Rightarrow> (string \<times> 's pyarg) list \<Rightarrow> (unit, 's) prog"
where
  "call_reset_HEMT_settings args kwargs =
     (case bind_args reset_HEMT_settings_params [] args kwargs of
        Inl e \<Rightarrow> raise e
      | Inr env \<Rightarrow>
         (case as_psu (env ''HEMT_PSU'') of
            Some psu \<Rightarrow> reset_HEMT_settings psu (env ''output'')
          | None \<Rightarrow> raise TypeError))"

subsection \<open>turn_on_HEMTS and turn_off_HEMTS\<close>

text \<open>
  \<^verbatim>\<open>
  def turn_on_HEMTS(HEMT_PSU):
      reset_HEMT_settings()
      ramp_voltage(HEMT_PSU, ch=1, v_start=0, v_stop=1.1)
      target, ch1_current_voltage_data = monitor_IV_curve(HEMT_PSU, ch1_data)
      ramp_voltage(HEMT_PSU, ch=2, v_start=0, v_stop=0.7)

  def turn_off_HEMTS(HEMT_PSU):
      ramp_voltage(HEMT_PSU, ch=1, v_start=0, v_stop=1.1)
      ramp_voltage(HEMT_PSU, ch=2, v_start=0, v_stop=0.7)
      reset_HEMT_settings()
  \<close>
  No cell of the notebook binds the name \<open>ch1_data\<close>: evaluating the arguments of the
  \<open>monitor_IV_curve\<close> call raises \<open>NameError\<close> before that function is entered.
\<close>

definition turn_on_HEMTS :: "'s psu \<Rightarrow> (unit, 's) prog" where
  "turn_on_HEMTS HEMT_PSU =
     then_do (call_reset_HEMT_settings [] []) (\<lambda>_.
     then_do (call_ramp_voltage [ArgPsu HEMT_PSU]
                [(''ch'', ArgInt 1), (''v_start'', ArgInt 0), (''v_stop'', ArgFloat (f64 (11 / 10)))]) (\<lambda>_.
     then_do (raise NameError) (\<lambda>_ :: unit.
     then_do (call_ramp_voltage [ArgPsu HEMT_PSU]
                [(''ch'', ArgInt 2), (''v_start'', ArgInt 0), (''v_stop'', ArgFloat (f64 (7 / 10)))]) (\<lambda>_.
     succeed ()))))"

definition turn_off_HEMTS :: "'s psu \<Rightarrow> (unit, 's) prog" where
  "turn_off_HEMTS HEMT_PSU =
     then_do (call_ramp_voltage [ArgPsu HEMT_PSU]
                [(''ch'', ArgInt 1), (''v_start'', ArgInt 0), (''v_stop'', ArgFloat (f64 (11 / 10)))]) (\<lambda>_.
     then_do (call_ramp_voltage [ArgPsu HEMT_PSU]
                [(''ch'', ArgInt 2), (''v_start'', ArgInt 0), (''v_stop'', ArgFloat (f64 (7 / 10)))]) (\<lambda>_.
     then_do (call_reset_HEMT_settings [] []) (\<lambda>_.
     succeed ())))"

subsection \<open>Reading a trace\<close>



text \<open>
  Replaying a trace on a device: the state the device is in after the driver calls of the
  trace, made in this order from the state \<open>s\<close>, provided that each call has the outcome
  the trace records for it.
\<close>

fun replay :: "'s psu \<Rightarrow> 's \<Rightarrow> event list \<Rightarrow> 's option" where
  "replay psu s [] = Some s"
| "replay psu s (Call cmd r # evs) =
     (case psu cmd s of (r', s') \<Rightarrow> if r' = r then replay psu s' evs else None)"
| "replay psu s (ev # evs) = replay psu s evs"


text \<open>What one completed pass of the loop of \<open>ramp_voltage\<close> leaves in the trace.\<close>

definition step_events :: "int \<Rightarrow> rat \<Rightarrow> pyobj \<times> rat \<times> pyobj \<Rightarrow> event list" where
  "step_events channel delay q =
     (case q of (r, p) \<Rightarrow>
     [Print channel (fst p),
      Call (SetChannelVoltage channel (fst p)) (Inr r),
      Call (GetChannelCurrent channel) (Inr (snd p)),
      Sleep delay])"

subsection \<open>Test devices\<close>

text \<open>
  A load of one ohm: the device remembers the last commanded voltage and reports it as
  the current; its output is off.
\<close>

definition ohmic_psu :: "rat psu" where
  "ohmic_psu cmd s =
     (case cmd of
        SetChannelVoltage ch v \<Rightarrow> (Inr PyNone, v)
      | GetChannelCurrent ch \<Rightarrow> (Inr (PyFloat s), s)
      | GetChannelVoltage ch \<Rightarrow> (Inr (PyFloat s), s)
      | SetOvercurrent ch ocp \<Rightarrow> (Inr PyNone, s)
      | GetOutput \<Rightarrow> (Inr (PyBool False), s)
      | SetOutput ch b \<Rightarrow> (Inr PyNone, s))"


definition w0 :: "'s \<Rightarrow> 's world" where
  "w0 s = \<lparr>dev = s, trace = []\<rparr>"

section \<open>Auxiliary facts\<close>

subsection \<open>Binary64 rounding\<close>

lemma pow2_powi: "pow2 e = 2 powi e"
  by (simp add: pow2_def power_int_def power_one_over inverse_eq_divide)

lemma pow2_pos: "0 < pow2 e"
  by (simp add: pow2_powi)

lemma bitlen_powi:
  assumes "0 < p"
  shows "2 powi (bitlen p - 1) \<le> (of_int p :: rat) \<and> (of_int p :: rat) < 2 powi (bitlen p)"
proof -
  from bitlen_bounds [OF assms] have
    lo: "2 ^ nat (bitlen p - 1) \<le> p" and hi: "p < 2 ^ nat (bitlen p)"
    by simp_all
  have b1: "1 \<le> bitlen p"
    using assms by (simp add: bitlen_alt_def)
  have "(of_int (2 ^ nat (bitlen p - 1)) :: rat) \<le> of_int p"
    using lo by (simp only: of_int_le_iff)
  moreover have "(of_int p :: rat) < of_int (2 ^ nat (bitlen p))"
    using hi by (simp only: of_int_less_iff)
  ultimately show ?thesis
    using b1 by (simp add: power_int_def)
qed

lemma exponent_bounds:
  assumes "x \<noteq> 0"
  shows "pow2 (exponent x) \<le> \<bar>x\<bar> \<and> \<bar>x\<bar> < pow2 (exponent x + 1)"
proof -
  obtain p q where pq: "quotient_of \<bar>x\<bar> = (p, q)"
    by (cases "quotient_of \<bar>x\<bar>")
  then have q: "0 < q" and x: "\<bar>x\<bar> = of_int p / of_int q"
    by (simp_all add: quotient_of_denom_pos quotient_of_div)
  have "0 < \<bar>x\<bar>" using assms by simp
  with x q have p: "0 < p"
    by (simp add: zero_less_divide_iff)
  define d where "d = bitlen p - bitlen q"
  note bp = bitlen_powi [OF p] and bq = bitlen_powi [OF q]
  have q': "(0::rat) < of_int q" using q by simp
  have "\<bar>x\<bar> < 2 powi (bitlen p) / 2 powi (bitlen q - 1)"
  proof -
    have "\<bar>x\<bar> < 2 powi (bitlen p) / of_int q"
      using bp q' by (simp add: x divide_strict_right_mono)
    also have "\<dots> \<le> 2 powi (bitlen p) / 2 powi (bitlen q - 1)"
      using bq q' by (intro frac_le) simp_all
    finally show ?thesis .
  qed
  then have hi: "\<bar>x\<bar> < 2 powi (d + 1)"
    by (simp add: d_def power_int_diff [symmetric] algebra_simps)
  have "2 powi (bitlen p - 1) / 2 powi (bitlen q) < \<bar>x\<bar>"
  proof -
    have "2 powi (bitlen p - 1) / 2 powi (bitlen q) < 2 powi (bitlen p - 1) / (of_int q :: rat)"
      using bq q' by (intro divide_strict_left_mono) simp_all
    also have "\<dots> \<le> \<bar>x\<bar>"
      using bp q' by (simp add: x divide_right_mono)
    finally show ?thesis .
  qed
  then have lo: "2 powi (d - 1) < \<bar>x\<bar>"
    by (simp add: d_def power_int_diff [symmetric] algebra_simps)
  show ?thesis
  proof (cases "pow2 d \<le> \<bar>x\<bar>")
    case True
    then have "exponent x = d"
      by (simp add: exponent_def pq d_def)
    with True hi show ?thesis
      by (simp add: pow2_powi)
  next
    case False
    then have "exponent x = d - 1"
      by (simp add: exponent_def pq d_def)
    with False lo show ?thesis
      by (simp add: pow2_powi)
  qed
qed

lemma round_half_even_error: "\<bar>of_int (round_half_even x) - x\<bar> \<le> 1 / 2"
proof -
  have "of_int \<lfloor>x\<rfloor> \<le> x" "x < of_int \<lfloor>x\<rfloor> + 1"
    by linarith+
  then show ?thesis
    by (auto simp: round_half_even_def Let_def abs_le_iff)
qed

lemma round_half_even_nearest:
  "\<bar>of_int (round_half_even x) - x\<bar> \<le> \<bar>of_int k - x\<bar>"
proof -
  define f where "f = \<lfloor>x\<rfloor>"
  have fl: "of_int f \<le> x" "x < of_int f + 1"
    unfolding f_def by linarith+
  consider "k \<le> f" | "f + 1 \<le> k"
    by linarith
  then show ?thesis
  proof cases
    case 1
    then have "(of_int k :: rat) \<le> of_int f"
      by (simp only: of_int_le_iff)
    with fl show ?thesis
      by (auto simp: round_half_even_def Let_def f_def [symmetric] abs_le_iff)
  next
    case 2
    then have "(of_int (f + 1) :: rat) \<le> of_int k"
      by (simp only: of_int_le_iff)
    with fl show ?thesis
      by (auto simp: round_half_even_def Let_def f_def [symmetric] abs_le_iff)
  qed
qed

text \<open>
  The value of \<open>f64 x\<close> is a multiple \<open>m * u\<close> of the unit in the last place \<open>u\<close> of \<open>x\<close>,
  with a significand \<open>m\<close> of 53 bits, and no multiple of \<open>u\<close> is nearer to \<open>x\<close>.
\<close>

lemma f64_nearest:
  assumes "x \<noteq> 0"
  defines "u \<equiv> pow2 (exponent x - 52)"
  shows "\<exists>m. f64 x = of_int m * u \<and> 2 ^ 52 \<le> \<bar>m\<bar> \<and> \<bar>m\<bar> \<le> 2 ^ 53 \<and>
           (\<forall>k. \<bar>f64 x - x\<bar> \<le> \<bar>of_int k * u - x\<bar>)"
proof -
  have u: "0 < u" by (simp add: u_def pow2_pos)
  define y where "y = x / u"
  define m where "m = round_half_even y"
  have xy: "x = y * u"
    using u by (simp add: y_def)
  have f: "f64 x = of_int m * u"
    using assms(1) by (simp add: f64_def m_def y_def u_def Let_def)
  have e: "\<bar>of_int m - y\<bar> \<le> 1 / 2"
    unfolding m_def by (rule round_half_even_error)
  have near: "\<bar>f64 x - x\<bar> \<le> \<bar>of_int k * u - x\<bar>" for k
  proof -
    have "\<bar>of_int m - y\<bar> * u \<le> \<bar>of_int k - y\<bar> * u"
      unfolding m_def using u by (intro mult_right_mono round_half_even_nearest) simp
    moreover have "\<bar>of_int j * u - x\<bar> = \<bar>of_int j - y\<bar> * u" for j
    proof -
      have "of_int j * u - x = (of_int j - y) * u"
        by (simp add: xy left_diff_distrib)
      then show ?thesis
        using u by (simp add: abs_mult)
    qed
    ultimately show ?thesis
      by (simp add: f)
  qed
  have "pow2 (exponent x) / u = 2 ^ 52"
    by (simp add: u_def pow2_powi power_int_diff [symmetric])
  moreover have "pow2 (exponent x + 1) / u = 2 ^ 53"
    by (simp add: u_def pow2_powi power_int_diff [symmetric])
  moreover have "\<bar>y\<bar> = \<bar>x\<bar> / u"
    using u by (simp add: y_def abs_of_pos)
  ultimately have y: "2 ^ 52 \<le> \<bar>y\<bar>" "\<bar>y\<bar> < 2 ^ 53"
    using exponent_bounds [OF assms(1)] u
    by (metis divide_right_mono less_imp_le, metis divide_strict_right_mono)
  have "(of_int \<bar>m\<bar> :: rat) = \<bar>of_int m\<bar>"
    by simp
  with e y have "(2 ^ 52 :: rat) - 1 / 2 \<le> of_int \<bar>m\<bar>" "(of_int \<bar>m\<bar> :: rat) < 2 ^ 53 + 1 / 2"
    by linarith+
  then have "(of_int (2 ^ 52 - 1) :: rat) < of_int \<bar>m\<bar>" "(of_int \<bar>m\<bar> :: rat) < of_int (2 ^ 53 + 1)"
    by simp_all
  then have "2 ^ 52 \<le> \<bar>m\<bar>" "\<bar>m\<bar> \<le> 2 ^ 53"
    by (simp_all only: of_int_less_iff)
  with f near show ?thesis
    by blast
qed


lemma f64_representable:
  "f64 1 = 1" "f64 (1 / 2) = 1 / 2" "f64 (- 3) = - 3"
  "f64 (2 ^ 53 + 1) = 2 ^ 53" "f64 (2 ^ 53 + 3) = 2 ^ 53 + 4"
  by code_simp+

subsection \<open>The setpoints\<close>












subsection \<open>The loop\<close>

lemma replay_append:
  "replay psu s (xs @ ys) = (case replay psu s xs of None \<Rightarrow> None | Some s' \<Rightarrow> replay psu s' ys)"
  by (induction psu s xs rule: replay.induct) (auto split: prod.splits)

lemma ramp_step_Inr:
  assumes "ramp_step psu channel delay v w = (Inr p, w')"
  shows "fst p = v \<and> 0 \<le> delay \<and>
    (\<exists>r. trace w' = trace w @ step_events channel delay (r, p) \<and>
         replay psu (dev w) (step_events channel delay (r, p)) = Some (dev w'))"
  using assms
  by (auto simp: ramp_step_def then_do_def succeed_def raise_def emit_def sleep_def
      set_channel_voltage_def get_channel_current_def device_call_def step_events_def
      split: prod.splits sum.splits if_splits)


lemma ramp_loop_Inr:
  "ramp_loop psu channel delay vs data w = (Inr out, w') \<Longrightarrow>
     \<exists>qs. length qs = length vs \<and> map (fst \<circ> snd) qs = vs \<and> out = data @ map snd qs \<and>
          trace w' = trace w @ concat (map (step_events channel delay) qs) \<and>
          replay psu (dev w) (concat (map (step_events channel delay) qs)) = Some (dev w') \<and>
          (vs \<noteq> [] \<longrightarrow> 0 \<le> delay)"
proof (induction vs arbitrary: data w)
  case Nil
  then show ?case by (simp add: succeed_def)
next
  case (Cons v vs)
  from Cons.prems obtain p w1 where
    step: "ramp_step psu channel delay v w = (Inr p, w1)" and
    rest: "ramp_loop psu channel delay vs (data @ [p]) w1 = (Inr out, w')"
    by (auto simp: then_do_def split: prod.splits sum.splits)
  from ramp_step_Inr [OF step] obtain r where
    p: "fst p = v" and d: "0 \<le> delay" and
    t1: "trace w1 = trace w @ step_events channel delay (r, p)" and
    r1: "replay psu (dev w) (step_events channel delay (r, p)) = Some (dev w1)"
    by blast
  from Cons.IH [OF rest] obtain qs where
    qs: "length qs = length vs" "map (fst \<circ> snd) qs = vs" "out = (data @ [p]) @ map snd qs"
      "trace w' = trace w1 @ concat (map (step_events channel delay) qs)"
      "replay psu (dev w1) (concat (map (step_events channel delay) qs)) = Some (dev w')"
    by blast
  have "length ((r, p) # qs) = length (v # vs)"
    using qs(1) by simp
  moreover have "map (fst \<circ> snd) ((r, p) # qs) = v # vs"
    using qs(2) p by simp
  moreover have "out = data @ map snd ((r, p) # qs)"
    using qs(3) by simp
  moreover have "trace w' = trace w @ concat (map (step_events channel delay) ((r, p) # qs))"
    using qs(4) t1 by simp
  moreover have "replay psu (dev w) (concat (map (step_events channel delay) ((r, p) # qs))) = Some (dev w')"
    using qs(5) r1 by (simp add: replay_append)
  moreover have "v # vs \<noteq> [] \<longrightarrow> 0 \<le> delay"
    using d by simp
  ultimately show ?case
    by (intro exI [of _ "(r, p) # qs"] conjI)
qed





subsection \<open>A call of ramp_voltage that returns\<close>

lemma ramp_voltage_Inr:
  assumes "ramp_voltage rnd psu channel v_start v_stop v_step delay w = (Inr data, w')"
  shows "\<exists>qs. ramp_setpoints rnd v_start v_stop v_step = Inr (map (fst \<circ> snd) qs) \<and>
            data = map snd qs \<and>
            trace w' = trace w @ concat (map (step_events channel delay) qs) @ [PrintLn] \<and>
            replay psu (dev w) (concat (map (step_events channel delay) qs) @ [PrintLn]) = Some (dev w') \<and>
            (qs \<noteq> [] \<longrightarrow> 0 \<le> delay)"
proof (cases "ramp_setpoints rnd v_start v_stop v_step")
  case (Inl e)
  with assms show ?thesis
    by (simp add: ramp_voltage_def raise_def)
next
  case (Inr vs)
  with assms obtain w1 where
    loop: "ramp_loop psu channel delay vs [] w = (Inr data, w1)" and
    w': "w' = w1\<lparr>trace := trace w1 @ [PrintLn]\<rparr>"
    by (auto simp: ramp_voltage_def then_do_def emit_def succeed_def split: prod.splits sum.splits)
  from ramp_loop_Inr [OF loop] obtain qs where
    qs: "length qs = length vs" "map (fst \<circ> snd) qs = vs" "data = [] @ map snd qs"
      "trace w1 = trace w @ concat (map (step_events channel delay) qs)"
      "replay psu (dev w) (concat (map (step_events channel delay) qs)) = Some (dev w1)"
      "vs \<noteq> [] \<longrightarrow> 0 \<le> delay"
    by blast
  have "ramp_setpoints rnd v_start v_stop v_step = Inr (map (fst \<circ> snd) qs)"
    using Inr qs(2) by simp
  moreover have "data = map snd qs"
    using qs(3) by simp
  moreover have "trace w' = trace w @ concat (map (step_events channel delay) qs) @ [PrintLn]"
    using qs(4) w' by simp
  moreover have "replay psu (dev w) (concat (map (step_events channel delay) qs) @ [PrintLn]) = Some (dev w')"
    using qs(5) w' by (simp add: replay_append)
  moreover have "qs \<noteq> [] \<longrightarrow> 0 \<le> delay"
    using qs(1) qs(6) by auto
  ultimately show ?thesis
    by (intro exI [of _ qs] conjI)
qed

lemma ramp_voltage_voltages:
  assumes "ramp_voltage rnd psu channel v_start v_stop v_step delay w = (Inr data, w')"
  shows "ramp_setpoints rnd v_start v_stop v_step = Inr (map fst data)"
proof -
  from ramp_voltage_Inr [OF assms] obtain qs :: "(pyobj \<times> rat \<times> pyobj) list" where
    "ramp_setpoints rnd v_start v_stop v_step = Inr (map (fst \<circ> snd) qs)" "data = map snd qs"
    by blast
  then show ?thesis by simp
qed




subsection \<open>A call of ramp_voltage that raises\<close>



subsection \<open>Sequencing, calls and argument binding\<close>

lemma then_do_raise [simp]: "then_do (raise e) f = raise e"
  by (simp add: then_do_def raise_def fun_eq_iff)

lemma raise_apply: "raise e w = (Inl e, w)"
  by (simp add: raise_def)

lemma reset_no_arguments:
  "bind_args reset_HEMT_settings_params [] [] [] = Inl TypeError"
  by (simp add: bind_args_def reset_HEMT_settings_params_def)

lemma ramp_keyword_ch:
  "bind_args ramp_voltage_params ramp_voltage_defaults [psu]
      [(''ch'', c), (''v_start'', a), (''v_stop'', b)] = Inl TypeError"
  by (simp add: bind_args_def ramp_voltage_params_def)

lemma ramp_keyword_channel:
  "call_ramp_voltage [ArgPsu psu]
      [(''channel'', ArgInt c), (''v_start'', ArgInt a), (''v_stop'', ArgFloat b)]
    = ramp_voltage f64 psu c (of_int a) b (f64 (1 / 100)) 1"
  by (simp add: call_ramp_voltage_def bind_args_def ramp_voltage_params_def
      ramp_voltage_defaults_def arithmetic_of_def)



text \<open>Unfolding these runs a program on a concrete device.\<close>

lemmas prog_defs =
  then_do_def succeed_def raise_def emit_def device_call_def sleep_def py_assert_def
  set_channel_voltage_def get_channel_current_def get_channel_voltage_def
  set_overcurrent_def get_output_def set_output_def

subsection \<open>Runs on the test devices\<close>


lemma ohmic_setpoints: "ramp_setpoints exact 0 1 (1 / 2) = Inr [0, 1 / 2, 1]"
  by code_simp

lemma ohmic_ramp:
  "ramp_voltage exact ohmic_psu 1 0 1 (1 / 2) 0 (w0 0) =
     (Inr [(0, PyFloat 0), (1 / 2, PyFloat (1 / 2)), (1, PyFloat 1)],
      \<lparr>dev = 1, trace =
        [Print 1 0, Call (SetChannelVoltage 1 0) (Inr PyNone),
         Call (GetChannelCurrent 1) (Inr (PyFloat 0)), Sleep 0,
         Print 1 (1 / 2), Call (SetChannelVoltage 1 (1 / 2)) (Inr PyNone),
         Call (GetChannelCurrent 1) (Inr (PyFloat (1 / 2))), Sleep 0,
         Print 1 1, Call (SetChannelVoltage 1 1) (Inr PyNone),
         Call (GetChannelCurrent 1) (Inr (PyFloat 1)), Sleep 0,
         PrintLn]\<rparr>)"
  by (simp add: ramp_voltage_def ohmic_setpoints ramp_step_def prog_defs ohmic_psu_def w0_def)








section \<open>The claims\<close>

subsection \<open>ramp_voltage: the setpoints\<close>










subsection \<open>ramp_voltage: the effects of a call that returns\<close>

text \<open>
  C5. A call of \<open>ramp_voltage\<close> that returns the samples \<open>data\<close> has added to the trace,
  for each sample \<open>(v, cur)\<close> in order, the four events of \<^const>\<open>step_events\<close>: the
  printed line, the call \<open>set_channel_voltage(channel, v)\<close>, the call
  \<open>get_channel_current(channel)\<close> with the outcome \<open>cur\<close>, and the sleep of \<open>delay\<close>; then
  the final newline, and nothing else. The voltages of \<open>data\<close> are the setpoints. Replaying
  the added events on the device from its state before the call succeeds and ends in its
  state after the call: every recorded current is the object the driver returned to that
  very call.
\<close>

theorem ramp_voltage_trace:
  assumes "ramp_voltage rnd psu channel v_start v_stop v_step delay w = (Inr data, w')"
  shows "\<exists>rs. length rs = length data \<and>
     ramp_setpoints rnd v_start v_stop v_step = Inr (map fst data) \<and>
     trace w' = trace w @ concat (map (step_events channel delay) (zip rs data)) @ [PrintLn] \<and>
     replay psu (dev w) (concat (map (step_events channel delay) (zip rs data)) @ [PrintLn])
       = Some (dev w')"
proof -
  from ramp_voltage_Inr [OF assms] obtain qs where
    qs: "data = map snd qs"
      "trace w' = trace w @ concat (map (step_events channel delay) qs) @ [PrintLn]"
      "replay psu (dev w) (concat (map (step_events channel delay) qs) @ [PrintLn]) = Some (dev w')"
    by blast
  have z: "zip (map fst qs) data = qs"
    using qs(1) by (simp add: zip_map_fst_snd)
  have "length (map fst qs) = length data"
    using qs(1) by simp
  moreover note ramp_voltage_voltages [OF assms]
  moreover have "trace w' = trace w @ concat (map (step_events channel delay) (zip (map fst qs) data)) @ [PrintLn]"
    using qs(2) z by simp
  moreover have "replay psu (dev w) (concat (map (step_events channel delay) (zip (map fst qs) data)) @ [PrintLn])
       = Some (dev w')"
    using qs(3) z by simp
  ultimately show ?thesis
    by (intro exI [of _ "map fst qs"] conjI)
qed

theorem ramp_voltage_trace_witness:
  "\<exists>data w' rs. ramp_voltage exact ohmic_psu 1 0 1 (1 / 2) 0 (w0 0) = (Inr data, w') \<and>
      data = [(0, PyFloat 0), (1 / 2, PyFloat (1 / 2)), (1, PyFloat 1)] \<and>
      length rs = length data \<and>
      trace w' = trace (w0 (0::rat)) @ concat (map (step_events 1 0) (zip rs data)) @ [PrintLn] \<and>
      replay ohmic_psu (dev (w0 (0::rat)))
        (concat (map (step_events 1 0) (zip rs data)) @ [PrintLn]) = Some (dev w')"
  using ramp_voltage_trace [OF ohmic_ramp] ohmic_ramp by blast



subsection \<open>ramp_voltage: a step that is not positive\<close>




subsection \<open>ramp_voltage: a driver call that raises\<close>




subsection \<open>turn_on_HEMTS\<close>

text \<open>
  C7. For every driver object and whatever the state of the device, \<open>turn_on_HEMTS(HEMT_PSU)\<close>
  raises \<open>TypeError\<close> and leaves the device and the trace as they were: no command is
  issued. The error is that of its first statement, the call \<open>reset_HEMT_settings()\<close>
  without arguments of a function of two parameters. The two ramps and the
  \<open>monitor_IV_curve\<close> line after it are never reached.
\<close>

theorem turn_on_HEMTS_TypeError:
  "turn_on_HEMTS HEMT_PSU w = (Inl TypeError, w)
   \<and> length reset_HEMT_settings_params = 2
   \<and> call_reset_HEMT_settings [] [] w = (Inl TypeError, w)"
  by (simp add: turn_on_HEMTS_def call_reset_HEMT_settings_def reset_no_arguments raise_apply)
    (simp add: reset_HEMT_settings_params_def)

subsection \<open>turn_off_HEMTS\<close>

text \<open>
  C9. \<open>turn_off_HEMTS(HEMT_PSU)\<close> does not command any voltage: its first statement passes
  the keyword \<open>ch\<close> to \<open>ramp_voltage\<close>, whose parameter is called \<open>channel\<close>, so the call
  raises \<open>TypeError\<close> before the body of \<open>ramp_voltage\<close> runs. The device and the trace are
  as they were; the second ramp and the final \<open>reset_HEMT_settings()\<close> are never reached.
\<close>

theorem turn_off_HEMTS_TypeError:
  "turn_off_HEMTS HEMT_PSU w = (Inl TypeError, w)"
  by (simp add: turn_off_HEMTS_def call_ramp_voltage_def ramp_keyword_ch raise_apply)

subsection \<open>reset_HEMT_settings\<close>



end
